theory Spec2Isabelle
  imports Complex_Main "HOL-Library.Word"
begin

unbundle bit_operations_syntax

section \<open>Values, errors and numpy arithmetic\<close>

text \<open>
  The geometry of \<^verbatim>\<open>autonomous_driver/util.py\<close> is computed on float64 numbers. Finite
  floats are modelled by exact real numbers (no rounding, overflow or underflow). numpy
  does not raise on a division by zero: the quotient is \<^verbatim>\<open>inf\<close>, \<^verbatim>\<open>-inf\<close> or \<^verbatim>\<open>nan\<close>. Those three
  values are modelled by the one value \<open>NotFinite\<close>: the code only ever distinguishes them
  from finite numbers (the canvas test is false on each of them and \<^verbatim>\<open>int()\<close> raises on each).
\<close>

datatype np_float = Finite real | NotFinite

datatype error =
    IndexError        \<comment> \<open>a list or array index out of range\<close>
  | ShapeError        \<comment> \<open>the ValueError of \<^verbatim>\<open>np.dot\<close> on shapes that are not aligned\<close>
  | EmptyError        \<comment> \<open>the ValueError of \<^verbatim>\<open>min()\<close>/\<^verbatim>\<open>max()\<close> on an empty array\<close>
  | NotFiniteError    \<comment> \<open>\<^verbatim>\<open>int()\<close> of a float that is inf (OverflowError) or nan (ValueError)\<close>

definition bind :: "error + 'a \<Rightarrow> ('a \<Rightarrow> error + 'b) \<Rightarrow> error + 'b" where
  "bind m f = (case m of Inl e \<Rightarrow> Inl e | Inr a \<Rightarrow> f a)"

definition py_index :: "'a list \<Rightarrow> nat \<Rightarrow> error + 'a" where
  "py_index xs i = (if i < length xs then Inr (xs ! i) else Inl IndexError)"

fun np_add :: "np_float \<Rightarrow> np_float \<Rightarrow> np_float" where
  "np_add (Finite a) (Finite b) = Finite (a + b)"
| "np_add _ _ = NotFinite"

fun np_mul :: "np_float \<Rightarrow> np_float \<Rightarrow> np_float" where
  "np_mul (Finite a) (Finite b) = Finite (a * b)"
| "np_mul _ _ = NotFinite"

fun np_neg :: "np_float \<Rightarrow> np_float" where
  "np_neg (Finite a) = Finite (- a)"
| "np_neg NotFinite = NotFinite"

text \<open>
  Division. A finite number divided by zero, and a non-finite number divided by a finite
  one, are not finite. The last equation covers a non-finite divisor: \<^verbatim>\<open>nan\<close> as a divisor
  gives \<^verbatim>\<open>nan\<close>, and so does \<^verbatim>\<open>inf/inf\<close>; a finite number over \<^verbatim>\<open>inf\<close> would be a zero, which
  the two-valued model does not tell apart. The divisor of the projector is the product
  of the third row of the intrinsics matrix with a finite vector, and that row is
  \<open>[0, 0, 1]\<close> in every matrix that \<open>build_projection_matrix\<close> makes.
\<close>

fun np_truediv :: "np_float \<Rightarrow> np_float \<Rightarrow> np_float" where
  "np_truediv (Finite a) (Finite b) = (if b = 0 then NotFinite else Finite (a / b))"
| "np_truediv _ _ = NotFinite"

text \<open>\<^verbatim>\<open>np.dot\<close> of a 2-D array with a 1-D array: every row must have the vector's length.\<close>

definition np_dot :: "real list list \<Rightarrow> real list \<Rightarrow> error + real list" where
  "np_dot M v =
     (if list_all (\<lambda>row. length row = length v) M
      then Inr (map (\<lambda>row. sum_list (map2 (*) row v)) M)
      else Inl ShapeError)"

definition np_dot_f :: "np_float list list \<Rightarrow> np_float list \<Rightarrow> error + np_float list" where
  "np_dot_f M v =
     (if list_all (\<lambda>row. length row = length v) M
      then Inr (map (\<lambda>row. foldr np_add (map2 np_mul row v) (Finite 0)) M)
      else Inl ShapeError)"

text \<open>Python's \<^verbatim>\<open>int()\<close> of a float truncates towards zero and raises on inf and nan.\<close>

fun py_int :: "np_float \<Rightarrow> error + int" where
  "py_int (Finite r) = Inr (if 0 \<le> r then \<lfloor>r\<rfloor> else \<lceil>r\<rceil>)"
| "py_int NotFinite = Inl NotFiniteError"

section \<open>Simulator objects\<close>

text \<open>
  The objects of the simulator's client library are read-only snapshots here: a record
  holds what the accessors of the object return in the current frame.
\<close>

record vector3d =
  vec_x :: real
  vec_y :: real
  vec_z :: real

definition vec_add :: "vector3d \<Rightarrow> vector3d \<Rightarrow> vector3d" where
  "vec_add a b = \<lparr>vec_x = vec_x a + vec_x b, vec_y = vec_y a + vec_y b, vec_z = vec_z a + vec_z b\<rparr>"

definition vec_sub :: "vector3d \<Rightarrow> vector3d \<Rightarrow> vector3d" where
  "vec_sub a b = \<lparr>vec_x = vec_x a - vec_x b, vec_y = vec_y a - vec_y b, vec_z = vec_z a - vec_z b\<rparr>"

definition vec_dot :: "vector3d \<Rightarrow> vector3d \<Rightarrow> real" where
  "vec_dot a b = vec_x a * vec_x b + vec_y a * vec_y b + vec_z a * vec_z b"

record rotation =
  pitch :: real
  yaw :: real
  roll :: real

record transform =
  tf_location :: vector3d
  tf_rotation :: rotation

record bounding_box =
  bb_location :: vector3d   \<comment> \<open>centre of the volume in the actor's local frame\<close>
  bb_extent :: vector3d     \<comment> \<open>half-length, half-width, half-height\<close>

record actor =
  actor_id :: int
  semantic_tags :: "int list"
  actor_transform :: transform              \<comment> \<open>\<^verbatim>\<open>get_transform()\<close>\<close>
  actor_bounding_box :: bounding_box
  world_vertices :: "vector3d list"      \<comment> \<open>\<^verbatim>\<open>bounding_box.get_world_vertices(get_transform())\<close>\<close>

record camera_blueprint =
  image_size_x :: int
  image_size_y :: int
  fov :: real

record camera =
  cam_location :: vector3d               \<comment> \<open>\<^verbatim>\<open>get_transform().location\<close>\<close>
  cam_forward_vector :: vector3d         \<comment> \<open>\<^verbatim>\<open>get_transform().get_forward_vector()\<close>\<close>
  cam_inverse_matrix :: "real list list" \<comment> \<open>\<^verbatim>\<open>get_transform().get_inverse_matrix()\<close>\<close>

section \<open>Camera intrinsics builder\<close>

definition np_identity :: "nat \<Rightarrow> np_float list list" where
  "np_identity n = map (\<lambda>i. map (\<lambda>j. if i = j then Finite 1 else Finite 0) [0..<n]) [0..<n]"

definition set_item :: "'a list list \<Rightarrow> nat \<Rightarrow> nat \<Rightarrow> 'a \<Rightarrow> 'a list list" where
  "set_item M i j v = M[i := (M ! i)[j := v]]"

text \<open>
  \<^verbatim>\<open>build_projection_matrix(w, h, fov, is_behind_camera=False)\<close>. The function checks
  nothing and raises nothing. Its one division is a float division: where the divisor
  \<open>2 * tan (fov * pi / 360)\<close> is zero, the focal length is not finite.
\<close>

definition build_projection_matrix :: "int \<Rightarrow> int \<Rightarrow> real \<Rightarrow> bool \<Rightarrow> np_float list list" where
  "build_projection_matrix w h fov' is_behind_camera =
     (let focal = np_truediv (Finite (of_int w)) (Finite (2 * tan (fov' * pi / 360)));
          K0 = np_identity 3;
          K1 = (if is_behind_camera
                then set_item (set_item K0 0 0 (np_neg focal)) 1 1 (np_neg focal)
                else set_item (set_item K0 0 0 focal) 1 1 focal);
          K2 = set_item K1 0 2 (Finite (of_int w / 2));
          K3 = set_item K2 1 2 (Finite (of_int h / 2))
      in K3)"

section \<open>World-to-image projector\<close>

definition get_image_point ::
  "vector3d \<Rightarrow> np_float list list \<Rightarrow> real list list \<Rightarrow> error + (np_float \<times> np_float)" where
  "get_image_point loc K w2c =
     bind (np_dot w2c [vec_x loc, vec_y loc, vec_z loc, 1]) (\<lambda>point_camera.
     bind (py_index point_camera 1) (\<lambda>c1.
     bind (py_index point_camera 2) (\<lambda>c2.
     bind (py_index point_camera 0) (\<lambda>c0.
     bind (np_dot_f K [Finite c1, Finite (- c2), Finite c0]) (\<lambda>point_img.
     bind (py_index point_img 0) (\<lambda>u.
     bind (py_index point_img 2) (\<lambda>s.
     bind (py_index point_img 1) (\<lambda>v.
     Inr (np_truediv u s, np_truediv v s)))))))))"

text \<open>
  \<^verbatim>\<open>point_in_canvas(pos, img_h, img_w)\<close>. On inf, -inf and nan one of the two comparisons
  of a coordinate is false, so a coordinate that is not finite is never in range.
\<close>

fun in_range :: "np_float \<Rightarrow> int \<Rightarrow> bool" where
  "in_range (Finite r) n = (r \<ge> 0 \<and> r < of_int n)"
| "in_range NotFinite n = False"

definition point_in_canvas :: "np_float \<times> np_float \<Rightarrow> int \<Rightarrow> int \<Rightarrow> bool" where
  "point_in_canvas pos img_h img_w = (in_range (fst pos) img_w \<and> in_range (snd pos) img_h)"

section \<open>Instance segmentation decoder\<close>

text \<open>
  The sensor's raw buffer holds 32-bit BGRA pixels, reshaped to height x width x 4 bytes:
  channel index 0 is B, 1 is G, 2 is R (as the source's comment on index 2 says), 3 is A.
\<close>

type_synonym u8 = "8 word"
type_synonym u16 = "16 word"

datatype pixel = BGRA (B: u8) (G: u8) (R: u8) (A: u8)

fun channel :: "pixel \<Rightarrow> nat \<Rightarrow> u8" where
  "channel p 0 = B p"
| "channel p (Suc 0) = G p"
| "channel p (Suc (Suc 0)) = R p"
| "channel p (Suc (Suc (Suc 0))) = A p"

definition decode_instance_segmentation :: "pixel list list \<Rightarrow> u8 list list \<times> u16 list list" where
  "decode_instance_segmentation img_rgba =
     (let semantic_labels = map (map (\<lambda>p. channel p 2)) img_rgba;
          actor_ids = map (map (\<lambda>p. (ucast (channel p 1) :: u16)
                                      + push_bit 8 (ucast (channel p 0) :: u16))) img_rgba
      in (semantic_labels, actor_ids))"

section \<open>2D bounding box extractor\<close>

record bbox_2d_result =
  r2_actor_id :: int
  r2_semantic_label :: int
  r2_bbox_2d :: "nat \<times> nat \<times> nat \<times> nat"   \<comment> \<open>(xmin, ymin, xmax, ymax)\<close>

definition np_any :: "bool list list \<Rightarrow> bool" where
  "np_any msk = list_ex (list_ex id) msk"

text \<open>\<^verbatim>\<open>np.where(mask)\<close> of a 2-D mask: the row and the column indices of the true cells,
  in row-major order.\<close>

definition np_where :: "bool list list \<Rightarrow> nat list \<times> nat list" where
  "np_where msk =
     (let cells = concat (map (\<lambda>(y, row). map (\<lambda>(x, m). (y, x)) (filter snd (enumerate 0 row)))
                              (enumerate 0 msk))
      in (map fst cells, map snd cells))"

fun np_min :: "nat list \<Rightarrow> error + nat" where
  "np_min [] = Inl EmptyError"
| "np_min (x # xs) = Inr (fold min xs x)"

fun np_max :: "nat list \<Rightarrow> error + nat" where
  "np_max [] = Inl EmptyError"
| "np_max (x # xs) = Inr (fold max xs x)"

definition bbox_2d_for_actor ::
  "actor \<Rightarrow> u16 list list \<Rightarrow> u8 list list \<Rightarrow> error + bbox_2d_result option" where
  "bbox_2d_for_actor a actor_ids semantic_labels =
     (let msk = map (map (\<lambda>v. uint v = actor_id a)) actor_ids
      in if \<not> np_any msk then Inr None
         else (case np_where msk of (ys, xs) \<Rightarrow>
           bind (np_min xs) (\<lambda>xmin.
           bind (np_max xs) (\<lambda>xmax.
           bind (np_min ys) (\<lambda>ymin.
           bind (np_max ys) (\<lambda>ymax.
           bind (py_index (semantic_tags a) 0) (\<lambda>tag.
           Inr (Some \<lparr>r2_actor_id = actor_id a,
                      r2_semantic_label = tag,
                      r2_bbox_2d = (xmin, ymin, xmax, ymax)\<rparr>))))))))"

section \<open>3D bounding box projector\<close>

definition EDGES :: "(nat \<times> nat) list" where
  "EDGES = [(0,1), (1,3), (3,2), (2,0), (0,4), (4,5), (5,1), (5,7), (7,6), (6,4), (6,2), (7,3)]"

type_synonym segment = "int \<times> int \<times> int \<times> int"

record dimensions =
  dim_length :: real
  dim_width :: real
  dim_height :: real

record box_3d =
  center :: vector3d
  box_dimensions :: dimensions
  rotation_yaw :: real

record bbox_3d_result =
  r3_actor_id :: int
  r3_semantic_label :: int
  r3_bbox_3d :: box_3d
  r3_projection :: "segment list"

definition radians :: "real \<Rightarrow> real" where
  "radians d = d * pi / 180"

text \<open>The body of the loop over \<open>EDGES\<close>: \<open>Inr None\<close> is the \<^verbatim>\<open>continue\<close>, \<open>Inr (Some seg)\<close>
  the tuple that is appended.\<close>

definition project_edge ::
  "np_float list list \<Rightarrow> np_float list list \<Rightarrow> real list list \<Rightarrow> int \<Rightarrow> int \<Rightarrow> camera
     \<Rightarrow> vector3d list \<Rightarrow> nat \<times> nat \<Rightarrow> error + segment option" where
  "project_edge K K_b world_2_camera image_w image_h cam verts edge =
     bind (py_index verts (fst edge)) (\<lambda>v0.
     bind (get_image_point v0 K world_2_camera) (\<lambda>p1.
     bind (py_index verts (snd edge)) (\<lambda>v1.
     bind (get_image_point v1 K world_2_camera) (\<lambda>p2.
     let p1_in_canvas = point_in_canvas p1 image_h image_w;
         p2_in_canvas = point_in_canvas p2 image_h image_w
     in if \<not> p1_in_canvas \<and> \<not> p2_in_canvas then Inr None
        else
          let ray0 = vec_sub v0 (cam_location cam);
              ray1 = vec_sub v1 (cam_location cam);
              cam_forward_vec = cam_forward_vector cam
          in
            bind (if \<not> (vec_dot cam_forward_vec ray0 > 0)
                  then get_image_point v0 K_b world_2_camera else Inr p1) (\<lambda>p1.
            bind (if \<not> (vec_dot cam_forward_vec ray1 > 0)
                  then get_image_point v1 K_b world_2_camera else Inr p2) (\<lambda>p2.
            bind (py_int (fst p1)) (\<lambda>a.
            bind (py_int (snd p1)) (\<lambda>b.
            bind (py_int (fst p2)) (\<lambda>c.
            bind (py_int (snd p2)) (\<lambda>d.
            Inr (Some (a, b, c, d))))))))))))"

fun project_edges ::
  "(nat \<times> nat \<Rightarrow> error + segment option) \<Rightarrow> (nat \<times> nat) list \<Rightarrow> segment list
     \<Rightarrow> error + segment list" where
  "project_edges step [] projection = Inr projection"
| "project_edges step (edge # edges) projection =
     (case step edge of
        Inl e \<Rightarrow> Inl e
      | Inr None \<Rightarrow> project_edges step edges projection
      | Inr (Some seg) \<Rightarrow> project_edges step edges (projection @ [seg]))"

text \<open>
  \<^verbatim>\<open>bbox_3d_for_actor(actor, ego, camera_bp, camera)\<close>. \<^verbatim>\<open>carla.Transform.inverse_transform\<close>
  is a method of the simulator's client library, not of this repository: it is the
  parameter \<open>inverse_transform\<close>.
\<close>

definition bbox_3d_for_actor ::
  "(transform \<Rightarrow> vector3d \<Rightarrow> vector3d) \<Rightarrow> actor \<Rightarrow> actor \<Rightarrow> camera_blueprint \<Rightarrow> camera
     \<Rightarrow> error + bbox_3d_result" where
  "bbox_3d_for_actor inverse_transform a ego camera_bp cam =
     (let world_2_camera = cam_inverse_matrix cam;
          image_w = image_size_x camera_bp;
          image_h = image_size_y camera_bp;
          fov' = fov camera_bp;
          K = build_projection_matrix image_w image_h fov' False;
          K_b = build_projection_matrix image_w image_h fov' True;
          ego_bbox_loc = vec_add (tf_location (actor_transform ego))
                                 (bb_location (actor_bounding_box ego));
          ego_bbox_transform = \<lparr>tf_location = ego_bbox_loc,
                                tf_rotation = tf_rotation (actor_transform ego)\<rparr>;
          npc_bbox_loc = vec_add (tf_location (actor_transform a))
                                 (bb_location (actor_bounding_box a));
          npc_loc_ego_space = inverse_transform ego_bbox_transform npc_bbox_loc;
          verts = world_vertices a
      in
        bind (project_edges (project_edge K K_b world_2_camera image_w image_h cam verts)
                EDGES []) (\<lambda>projection.
        bind (py_index (semantic_tags a) 0) (\<lambda>tag.
        Inr \<lparr>r3_actor_id = actor_id a,
             r3_semantic_label = tag,
             r3_bbox_3d =
               \<lparr>center = npc_loc_ego_space,
                box_dimensions =
                  \<lparr>dim_length = vec_x (bb_extent (actor_bounding_box a)) * 2,
                   dim_width = vec_y (bb_extent (actor_bounding_box a)) * 2,
                   dim_height = vec_z (bb_extent (actor_bounding_box a)) * 2\<rparr>,
                rotation_yaw = radians (yaw (tf_rotation (actor_transform a))
                                        - yaw (tf_rotation (actor_transform ego)))\<rparr>,
             r3_projection = projection\<rparr>)))"

section \<open>The specification's descriptions\<close>

text \<open>
  The definitions of this section follow the words of the specification, not the code;
  the theorems compare them with the functions above.
\<close>

subsection \<open>The projection algorithm of the specification (section 4.2)\<close>

definition is_matrix :: "nat \<Rightarrow> nat \<Rightarrow> 'a list list \<Rightarrow> bool" where
  "is_matrix r c M = (length M = r \<and> list_all (\<lambda>row. length row = c) M)"

definition spec_camera_space :: "real list list \<Rightarrow> vector3d \<Rightarrow> real \<times> real \<times> real" where
  "spec_camera_space w2c p =
     (let m = (\<lambda>i j. w2c ! i ! j)
      in (m 0 0 * vec_x p + m 0 1 * vec_y p + m 0 2 * vec_z p + m 0 3 * 1,
          m 1 0 * vec_x p + m 1 1 * vec_y p + m 1 2 * vec_z p + m 1 3 * 1,
          m 2 0 * vec_x p + m 2 1 * vec_y p + m 2 2 * vec_z p + m 2 3 * 1))"

definition spec_remap :: "real \<times> real \<times> real \<Rightarrow> real \<times> real \<times> real" where
  "spec_remap c = (case c of (cx, cy, cz) \<Rightarrow> (cy, - cz, cx))"

definition spec_apply_intrinsics ::
  "np_float list list \<Rightarrow> real \<times> real \<times> real \<Rightarrow> np_float \<times> np_float \<times> np_float" where
  "spec_apply_intrinsics K c =
     (case c of (x', y', z') \<Rightarrow>
        let row = (\<lambda>i. np_add (np_mul (K ! i ! 0) (Finite x'))
                         (np_add (np_mul (K ! i ! 1) (Finite y'))
                                 (np_mul (K ! i ! 2) (Finite z'))))
        in (row 0, row 1, row 2))"

definition spec_perspective_divide :: "np_float \<times> np_float \<times> np_float \<Rightarrow> np_float \<times> np_float" where
  "spec_perspective_divide t = (case t of (u, v, s) \<Rightarrow> (np_truediv u s, np_truediv v s))"

definition spec_image_point :: "vector3d \<Rightarrow> np_float list list \<Rightarrow> real list list \<Rightarrow> np_float \<times> np_float" where
  "spec_image_point p K w2c =
     spec_perspective_divide (spec_apply_intrinsics K (spec_remap (spec_camera_space w2c p)))"

subsection \<open>The edge step of the specification (section 4.5, step 5)\<close>

definition spec_behind_camera :: "camera \<Rightarrow> vector3d \<Rightarrow> bool" where
  "spec_behind_camera cam v = (vec_dot (cam_forward_vector cam) (vec_sub v (cam_location cam)) \<le> 0)"

definition spec_chosen_intrinsics ::
  "np_float list list \<Rightarrow> np_float list list \<Rightarrow> camera \<Rightarrow> vector3d \<Rightarrow> np_float list list" where
  "spec_chosen_intrinsics K K_b cam v = (if spec_behind_camera cam v then K_b else K)"

definition spec_edge_survives :: "camera_blueprint \<Rightarrow> camera \<Rightarrow> vector3d list \<Rightarrow> nat \<times> nat \<Rightarrow> bool" where
  "spec_edge_survives camera_bp cam verts edge =
     (let K = build_projection_matrix (image_size_x camera_bp) (image_size_y camera_bp)
                (fov camera_bp) False;
          in_canvas = (\<lambda>i. point_in_canvas (spec_image_point (verts ! i) K (cam_inverse_matrix cam))
                              (image_size_y camera_bp) (image_size_x camera_bp))
      in in_canvas (fst edge) \<or> in_canvas (snd edge))"

definition spec_edge_segment ::
  "camera_blueprint \<Rightarrow> camera \<Rightarrow> vector3d list \<Rightarrow> nat \<times> nat
     \<Rightarrow> (np_float \<times> np_float) \<times> (np_float \<times> np_float)" where
  "spec_edge_segment camera_bp cam verts edge =
     (let K = build_projection_matrix (image_size_x camera_bp) (image_size_y camera_bp)
                (fov camera_bp) False;
          K_b = build_projection_matrix (image_size_x camera_bp) (image_size_y camera_bp)
                  (fov camera_bp) True;
          endpoint = (\<lambda>i. spec_image_point (verts ! i)
                             (spec_chosen_intrinsics K K_b cam (verts ! i)) (cam_inverse_matrix cam))
      in (endpoint (fst edge), endpoint (snd edge)))"

text \<open>The pixel segment that is reported for a segment of finite coordinates.\<close>

definition segment_pixels :: "(np_float \<times> np_float) \<times> (np_float \<times> np_float) \<Rightarrow> error + segment" where
  "segment_pixels s =
     bind (py_int (fst (fst s))) (\<lambda>a.
     bind (py_int (snd (fst s))) (\<lambda>b.
     bind (py_int (fst (snd s))) (\<lambda>c.
     bind (py_int (snd (snd s))) (\<lambda>d.
     Inr (a, b, c, d)))))"

text \<open>The first error of a list of results, or all the values.\<close>

fun sequence_err :: "(error + 'a) list \<Rightarrow> error + 'a list" where
  "sequence_err [] = Inr []"
| "sequence_err (m # ms) =
     (case m of
        Inl e \<Rightarrow> Inl e
      | Inr a \<Rightarrow> (case sequence_err ms of Inl e \<Rightarrow> Inl e | Inr as \<Rightarrow> Inr (a # as)))"

text \<open>The segments of the surviving edges, in the order of the edge list.\<close>

definition spec_projection :: "camera_blueprint \<Rightarrow> camera \<Rightarrow> vector3d list \<Rightarrow> error + segment list" where
  "spec_projection camera_bp cam verts =
     sequence_err (map (\<lambda>edge. segment_pixels (spec_edge_segment camera_bp cam verts edge))
                       (filter (spec_edge_survives camera_bp cam verts) EDGES))"

subsection \<open>Matching pixels of an actor (section 4.4) and the packed id (section 3)\<close>

definition matching_cells :: "actor \<Rightarrow> u16 list list \<Rightarrow> (nat \<times> nat) set" where
  "matching_cells a actor_ids =
     {(y, x). y < length actor_ids \<and> x < length (actor_ids ! y) \<and> uint (actor_ids ! y ! x) = actor_id a}"

text \<open>The true cells of a mask, row by row.\<close>

definition mask_cells :: "bool list list \<Rightarrow> (nat \<times> nat) list" where
  "mask_cells msk =
     concat (map (\<lambda>(y, row). map (\<lambda>(x, m). (y, x)) (filter snd (enumerate 0 row)))
                 (enumerate 0 msk))"

definition spec_unpack_id :: "u16 \<Rightarrow> u8 \<times> u8" where
  "spec_unpack_id i = (ucast (drop_bit 8 i), ucast (i AND 255))"

section \<open>Example scene\<close>

text \<open>
  The scene of the specification's scenarios: an 800 x 600 camera with a field of view of
  90 degrees at the origin, facing +x, and unrotated boxes. For an unrotated actor the
  corner vertices are centre plus or minus extent, in the simulator's order (x slowest,
  z fastest), and the inverse transform of an unrotated frame is a translation.
\<close>

definition example_camera_bp :: camera_blueprint where
  "example_camera_bp = \<lparr>image_size_x = 800, image_size_y = 600, fov = 90\<rparr>"

definition example_camera :: camera where
  "example_camera =
     \<lparr>cam_location = \<lparr>vec_x = 0, vec_y = 0, vec_z = 0\<rparr>,
      cam_forward_vector = \<lparr>vec_x = 1, vec_y = 0, vec_z = 0\<rparr>,
      cam_inverse_matrix = [[1, 0, 0, 0], [0, 1, 0, 0], [0, 0, 1, 0], [0, 0, 0, 1]]\<rparr>"

definition box_vertices :: "vector3d \<Rightarrow> vector3d \<Rightarrow> vector3d list" where
  "box_vertices c e =
     [\<lparr>vec_x = vec_x c - vec_x e, vec_y = vec_y c - vec_y e, vec_z = vec_z c - vec_z e\<rparr>,
      \<lparr>vec_x = vec_x c - vec_x e, vec_y = vec_y c - vec_y e, vec_z = vec_z c + vec_z e\<rparr>,
      \<lparr>vec_x = vec_x c - vec_x e, vec_y = vec_y c + vec_y e, vec_z = vec_z c - vec_z e\<rparr>,
      \<lparr>vec_x = vec_x c - vec_x e, vec_y = vec_y c + vec_y e, vec_z = vec_z c + vec_z e\<rparr>,
      \<lparr>vec_x = vec_x c + vec_x e, vec_y = vec_y c - vec_y e, vec_z = vec_z c - vec_z e\<rparr>,
      \<lparr>vec_x = vec_x c + vec_x e, vec_y = vec_y c - vec_y e, vec_z = vec_z c + vec_z e\<rparr>,
      \<lparr>vec_x = vec_x c + vec_x e, vec_y = vec_y c + vec_y e, vec_z = vec_z c - vec_z e\<rparr>,
      \<lparr>vec_x = vec_x c + vec_x e, vec_y = vec_y c + vec_y e, vec_z = vec_z c + vec_z e\<rparr>]"

definition example_actor :: "vector3d \<Rightarrow> vector3d \<Rightarrow> actor" where
  "example_actor c e =
     \<lparr>actor_id = 42, semantic_tags = [14],
      actor_transform = \<lparr>tf_location = c, tf_rotation = \<lparr>pitch = 0, yaw = 0, roll = 0\<rparr>\<rparr>,
      actor_bounding_box = \<lparr>bb_location = \<lparr>vec_x = 0, vec_y = 0, vec_z = 0\<rparr>, bb_extent = e\<rparr>,
      world_vertices = box_vertices c e\<rparr>"

definition translation_inverse :: "transform \<Rightarrow> vector3d \<Rightarrow> vector3d" where
  "translation_inverse t p = vec_sub p (tf_location t)"

text \<open>An actor-id grid of 14 rows and 24 columns with a 3x3 block of id 42 at rows 10 to 12
  and columns 20 to 22.\<close>

definition example_ids :: "u16 list list" where
  "example_ids =
     map (\<lambda>y. map (\<lambda>x. if 10 \<le> y \<and> y \<le> 12 \<and> 20 \<le> x \<and> x \<le> 22 then 42 else 0) [0..<24])
         [0..<14]"

section \<open>Shared lemmas\<close>

lemma bind_simps [simp]: "bind (Inl e) f = Inl e" "bind (Inr a) f = f a"
  by (simp_all add: bind_def)

lemma bind_assoc: "bind (bind m f) g = bind m (\<lambda>x. bind (f x) g)"
  by (cases m) simp_all

section \<open>The packed actor id\<close>

lemma unat_ucast_u8: "unat (ucast (g::u8) :: u16) = unat g"
  using unsigned_less [of g, where 'a=nat] by (simp add: unsigned_ucast_eq take_bit_eq_mod)

lemma pack_unat:
  "unat ((ucast (g::u8) :: u16) + push_bit 8 (ucast (b::u8) :: u16)) = unat g + 256 * unat b"
proof -
  have g: "unat g < 256" using unsigned_less [of g, where 'a=nat] by simp
  have b: "unat b < 256" using unsigned_less [of b, where 'a=nat] by simp
  have "unat (push_bit 8 (ucast b :: u16)) = take_bit 16 (push_bit 8 (unat (ucast b :: u16)))"
    by (simp only: unsigned_push_bit_eq) simp
  then have pb: "unat (push_bit 8 (ucast b :: u16)) = 256 * unat b"
    using b by (simp only: unat_ucast_u8) (simp add: push_bit_eq_mult take_bit_eq_mod)
  have "unat (ucast g :: u16) + unat (push_bit 8 (ucast b :: u16)) < 2 ^ LENGTH(16)"
    using g b by (simp only: pb unat_ucast_u8) simp
  then have "unat ((ucast g :: u16) + push_bit 8 (ucast b :: u16))
               = unat (ucast g :: u16) + unat (push_bit 8 (ucast b :: u16))"
    by (simp only: unat_add_lem)
  then show ?thesis by (simp only: pb unat_ucast_u8)
qed

lemma unpack_pack:
  "spec_unpack_id ((ucast (g::u8) :: u16) + push_bit 8 (ucast (b::u8) :: u16)) = (b, g)"
proof -
  let ?i = "(ucast g :: u16) + push_bit 8 (ucast b :: u16)"
  have g: "unat g < 256" using unsigned_less [of g, where 'a=nat] by simp
  have b: "unat b < 256" using unsigned_less [of b, where 'a=nat] by simp
  have m: "(255 :: u16) = mask 8" by (simp add: mask_eq_exp_minus_1)
  have "unat (drop_bit 8 ?i) = drop_bit 8 (unat ?i)"
    by (rule unat_drop_bit_eq)
  then have "unat (drop_bit 8 ?i) = unat ?i div 256"
    by (simp add: drop_bit_eq_div)
  then have d: "unat (drop_bit 8 ?i) = unat b"
    using g by (simp add: pack_unat)
  have "unat (ucast (drop_bit 8 ?i) :: u8) = take_bit 8 (unat (drop_bit 8 ?i))"
    by (simp only: unsigned_ucast_eq) simp
  then have hi: "unat (ucast (drop_bit 8 ?i) :: u8) = unat b"
    using b by (simp only: d) (simp add: take_bit_eq_mod)
  have a: "?i AND 255 = take_bit 8 ?i" unfolding m by (simp only: take_bit_eq_mask)
  have "unat (ucast (take_bit 8 ?i) :: u8) = take_bit 8 (take_bit 8 (unat ?i))"
    by (simp only: unsigned_ucast_eq unsigned_take_bit_eq) simp
  then have lo: "unat (ucast (?i AND 255) :: u8) = unat g"
    using g by (simp only: a pack_unat) (simp add: take_bit_eq_mod)
  have "ucast (drop_bit 8 ?i) = b" "ucast (?i AND 255) = g"
    using hi lo by (simp_all only: word_unat_eq_iff)
  then show ?thesis
    unfolding spec_unpack_id_def by (simp only:)
qed

lemma channel_simps [simp]: "channel p 1 = G p" "channel p 2 = R p"
  by (simp_all add: numeral_2_eq_2)

text \<open>
  Claim C3. The decoder has no failing branch: for every buffer of 4-channel pixels it
  returns two grids of the buffer's shape (as many rows, and each row as long as the
  buffer's row); the semantic label of a cell is the pixel's R channel, and the actor id
  is the pixel's G channel plus its B channel shifted left by 8 bits, a sum that does not
  wrap in 16 bits.
\<close>

theorem decode_instance_segmentation_grids:
  "length (fst (decode_instance_segmentation img)) = length img \<and>
   length (snd (decode_instance_segmentation img)) = length img \<and>
   (\<forall>y < length img.
      length (fst (decode_instance_segmentation img) ! y) = length (img ! y) \<and>
      length (snd (decode_instance_segmentation img) ! y) = length (img ! y) \<and>
      (\<forall>x < length (img ! y).
         fst (decode_instance_segmentation img) ! y ! x = R (img ! y ! x) \<and>
         snd (decode_instance_segmentation img) ! y ! x
           = ucast (G (img ! y ! x)) + push_bit 8 (ucast (B (img ! y ! x))) \<and>
         unat (snd (decode_instance_segmentation img) ! y ! x)
           = unat (G (img ! y ! x)) + unat (B (img ! y ! x)) * 2 ^ 8))"
  by (simp add: decode_instance_segmentation_def pack_unat)

theorem decode_instance_segmentation_grids_witness:
  "fst (decode_instance_segmentation [[BGRA 1 2 14 255, BGRA 0 42 12 255]]) ! 0 ! 1 = 12 \<and>
   snd (decode_instance_segmentation [[BGRA 1 2 14 255, BGRA 0 42 12 255]]) ! 0 ! 1 = 42 \<and>
   unat (snd (decode_instance_segmentation [[BGRA 1 2 14 255, BGRA 0 42 12 255]]) ! 0 ! 0) = 258"
  using decode_instance_segmentation_grids [of "[[BGRA 1 2 14 255, BGRA 0 42 12 255]]"]
  by simp

text \<open>
  Claim C9. Decoding a pixel whose B channel is \<open>b\<close> and whose G channel is \<open>g\<close> gives the
  id \<open>g + b * 2^8\<close>; the pair \<open>(b, g)\<close> is recovered from the id (high byte, low byte), and
  two pixels with the same id have the same B and G channels.
\<close>

theorem actor_id_roundtrip:
  "unat (snd (decode_instance_segmentation [[BGRA b g r a]]) ! 0 ! 0) = unat g + unat b * 2 ^ 8 \<and>
   spec_unpack_id (snd (decode_instance_segmentation [[BGRA b g r a]]) ! 0 ! 0) = (b, g) \<and>
   (\<forall>b' g' r' a'.
      snd (decode_instance_segmentation [[BGRA b' g' r' a']])
        = snd (decode_instance_segmentation [[BGRA b g r a]]) \<longrightarrow> b' = b \<and> g' = g)"
proof -
  have inj: "b' = b \<and> g' = g"
    if "(ucast g' :: u16) + push_bit 8 (ucast b') = ucast g + push_bit 8 (ucast b)" for b' g'
  proof -
    have "spec_unpack_id ((ucast g' :: u16) + push_bit 8 (ucast b'))
            = spec_unpack_id (ucast g + push_bit 8 (ucast b))"
      using that by (rule arg_cong)
    then show ?thesis by (simp only: unpack_pack prod.inject)
  qed
  show ?thesis
    by (simp add: decode_instance_segmentation_def pack_unat unpack_pack inj)
qed

theorem actor_id_roundtrip_witness:
  "unat (snd (decode_instance_segmentation [[BGRA 1 2 14 255]]) ! 0 ! 0) = 258 \<and>
   spec_unpack_id (snd (decode_instance_segmentation [[BGRA 1 2 14 255]]) ! 0 ! 0) = (1, 2) \<and>
   snd (decode_instance_segmentation [[BGRA 1 2 0 0]])
     = snd (decode_instance_segmentation [[BGRA 1 2 14 255]])"
  using actor_id_roundtrip [of 1 2 14 255]
  by (simp add: decode_instance_segmentation_def)

section \<open>The intrinsics matrix\<close>

lemma np_identity_3:
  "np_identity 3 = [[Finite 1, Finite 0, Finite 0],
                    [Finite 0, Finite 1, Finite 0],
                    [Finite 0, Finite 0, Finite 1]]"
  by (simp add: np_identity_def upt_rec)

lemma build_projection_matrix_entries:
  "build_projection_matrix w h fv m =
     (let focal = np_truediv (Finite (of_int w)) (Finite (2 * tan (fv * pi / 360)));
          f = (if m then np_neg focal else focal)
      in [[f, Finite 0, Finite (of_int w / 2)],
          [Finite 0, f, Finite (of_int h / 2)],
          [Finite 0, Finite 0, Finite 1]])"
  by (simp add: build_projection_matrix_def np_identity_3 set_item_def Let_def)

lemma build_projection_matrix_is_matrix: "is_matrix 3 3 (build_projection_matrix w h fv m)"
  by (simp add: build_projection_matrix_entries is_matrix_def Let_def)

text \<open>
  Claim C7. For positive \<open>w\<close> and \<open>h\<close> and \<open>0 < fov < 180\<close> the builder returns the 3x3
  matrix with \<open>K[0][0] = K[1][1] = - focal\<close> when mirrored and \<open>focal\<close> otherwise, where
  \<open>focal = w / (2 * tan (fov * pi / 360))\<close> is a positive finite number, \<open>K[0][2] = w / 2\<close>,
  \<open>K[1][2] = h / 2\<close>, \<open>K[2][2] = 1\<close> and every other entry 0. Hence the mirrored and the
  normal matrix agree on every entry but \<open>K[0][0]\<close> and \<open>K[1][1]\<close>, which are negated.
\<close>

theorem build_projection_matrix_valid:
  assumes "0 < w" and "0 < h" and "0 < fv" and "fv < 180"
  shows "(let focal = real_of_int w / (2 * tan (fv * pi / 360)) in
          0 < focal \<and>
          build_projection_matrix w h fv mirrored =
            [[Finite (if mirrored then - focal else focal), Finite 0, Finite (of_int w / 2)],
             [Finite 0, Finite (if mirrored then - focal else focal), Finite (of_int h / 2)],
             [Finite 0, Finite 0, Finite 1]]) \<and>
         (\<forall>i < 3. \<forall>j < 3. (i, j) \<noteq> (0, 0) \<and> (i, j) \<noteq> (1, 1) \<longrightarrow>
            build_projection_matrix w h fv True ! i ! j
              = build_projection_matrix w h fv False ! i ! j) \<and>
         build_projection_matrix w h fv True ! 0 ! 0
           = np_neg (build_projection_matrix w h fv False ! 0 ! 0) \<and>
         build_projection_matrix w h fv True ! 1 ! 1
           = np_neg (build_projection_matrix w h fv False ! 1 ! 1)"
proof -
  have t: "0 < tan (fv * pi / 360)"
    by (rule tan_gt_zero) (use assms in auto)
  have 1: "(let focal = real_of_int w / (2 * tan (fv * pi / 360)) in
          0 < focal \<and>
          build_projection_matrix w h fv mirrored =
            [[Finite (if mirrored then - focal else focal), Finite 0, Finite (of_int w / 2)],
             [Finite 0, Finite (if mirrored then - focal else focal), Finite (of_int h / 2)],
             [Finite 0, Finite 0, Finite 1]])"
    using t assms(1) by (simp add: build_projection_matrix_entries Let_def)
  have 2: "\<forall>i < 3. \<forall>j < 3. (i, j) \<noteq> (0, 0) \<and> (i, j) \<noteq> (1, 1) \<longrightarrow>
           build_projection_matrix w h fv True ! i ! j = build_projection_matrix w h fv False ! i ! j"
    by (simp add: build_projection_matrix_entries Let_def nth_Cons' less_Suc_eq numeral_3_eq_3)
  have 3: "build_projection_matrix w h fv True ! 0 ! 0
           = np_neg (build_projection_matrix w h fv False ! 0 ! 0)"
    by (simp add: build_projection_matrix_entries Let_def)
  have 4: "build_projection_matrix w h fv True ! 1 ! 1
           = np_neg (build_projection_matrix w h fv False ! 1 ! 1)"
    by (simp add: build_projection_matrix_entries Let_def)
  from 1 2 3 4 show ?thesis by (intro conjI)
qed

theorem build_projection_matrix_valid_witness:
  "(0::int) < 800 \<and> (0::int) < 600 \<and> (0::real) < 90 \<and> (90::real) < 180 \<and>
   build_projection_matrix 800 600 90 False =
     [[Finite 400, Finite 0, Finite 400], [Finite 0, Finite 400, Finite 300],
      [Finite 0, Finite 0, Finite 1]] \<and>
   build_projection_matrix 800 600 90 True =
     [[Finite (- 400), Finite 0, Finite 400], [Finite 0, Finite (- 400), Finite 300],
      [Finite 0, Finite 0, Finite 1]]"
proof -
  have h: "(0::int) < 800" "(0::int) < 600" "(0::real) < 90" "(90::real) < 180"
    by simp_all
  note t = tan_45
  have n: "build_projection_matrix 800 600 90 False =
     [[Finite 400, Finite 0, Finite 400], [Finite 0, Finite 400, Finite 300],
      [Finite 0, Finite 0, Finite 1]]"
    using build_projection_matrix_valid [OF h, of False, THEN conjunct1]
    by (simp add: Let_def t)
  have m: "build_projection_matrix 800 600 90 True =
     [[Finite (- 400), Finite 0, Finite 400], [Finite 0, Finite (- 400), Finite 300],
      [Finite 0, Finite 0, Finite 1]]"
    using build_projection_matrix_valid [OF h, of True, THEN conjunct1]
    by (simp add: Let_def t)
  from h n m show ?thesis by (intro conjI)
qed

section \<open>The projector and the edge loop\<close>

lemma list3_nth: "length xs = 3 \<Longrightarrow> xs = [xs ! 0, xs ! 1, xs ! 2]"
  by (cases xs; cases "tl xs"; cases "tl (tl xs)") (auto simp: numeral_2_eq_2)

lemma list4_nth: "length xs = 4 \<Longrightarrow> xs = [xs ! 0, xs ! 1, xs ! 2, xs ! 3]"
  by (cases xs; cases "tl xs"; cases "tl (tl xs)"; cases "tl (tl (tl xs))")
     (auto simp: numeral_2_eq_2 numeral_3_eq_3)

lemma is_matrix_4_4:
  assumes "is_matrix 4 4 M"
  obtains r0 r1 r2 r3 where "M = [r0, r1, r2, r3]"
    "length r0 = 4" "length r1 = 4" "length r2 = 4" "length r3 = 4"
proof -
  from assms have l: "length M = 4" and a: "list_all (\<lambda>row. length row = 4) M"
    by (simp_all add: is_matrix_def)
  from l have e: "M = [M ! 0, M ! 1, M ! 2, M ! 3]" by (rule list4_nth)
  from a have "length (M ! 0) = 4" "length (M ! 1) = 4" "length (M ! 2) = 4" "length (M ! 3) = 4"
    using l by (simp_all add: list_all_length)
  with e show thesis using that by blast
qed

lemma is_matrix_3_3:
  assumes "is_matrix 3 3 M"
  obtains r0 r1 r2 where "M = [r0, r1, r2]" "length r0 = 3" "length r1 = 3" "length r2 = 3"
proof -
  from assms have l: "length M = 3" and a: "list_all (\<lambda>row. length row = 3) M"
    by (simp_all add: is_matrix_def)
  from l have e: "M = [M ! 0, M ! 1, M ! 2]" by (rule list3_nth)
  from a have "length (M ! 0) = 3" "length (M ! 1) = 3" "length (M ! 2) = 3"
    using l by (simp_all add: list_all_length)
  with e show thesis using that by blast
qed

lemma row_dot4:
  "length r = 4 \<Longrightarrow> sum_list (map2 (*) r [a, b, c, d :: real])
     = r ! 0 * a + r ! 1 * b + r ! 2 * c + r ! 3 * d"
  by (subst (1) list4_nth [of r], assumption) simp

lemma row_dot3:
  "length r = 3 \<Longrightarrow> foldr np_add (map2 np_mul r [a, b, c]) (Finite 0)
     = np_add (np_mul (r ! 0) a) (np_add (np_mul (r ! 1) b) (np_mul (r ! 2) c))"
proof -
  have z: "np_add x (Finite 0) = x" for x by (cases x) simp_all
  assume "length r = 3"
  then have "r = [r ! 0, r ! 1, r ! 2]" by (rule list3_nth)
  then have "foldr np_add (map2 np_mul r [a, b, c]) (Finite 0)
      = foldr np_add (map2 np_mul [r ! 0, r ! 1, r ! 2] [a, b, c]) (Finite 0)" by simp
  then show ?thesis by (simp add: z)
qed

lemma get_image_point_eq:
  assumes K: "is_matrix 3 3 K" and W: "is_matrix 4 4 w2c"
  shows "get_image_point p K w2c = Inr (spec_image_point p K w2c)"
proof -
  from W obtain r0 r1 r2 r3 where w: "w2c = [r0, r1, r2, r3]"
    and lw: "length r0 = 4" "length r1 = 4" "length r2 = 4" "length r3 = 4"
    by (rule is_matrix_4_4)
  from K obtain k0 k1 k2 where k: "K = [k0, k1, k2]"
    and lk: "length k0 = 3" "length k1 = 3" "length k2 = 3"
    by (rule is_matrix_3_3)
  have d1: "np_dot [r0, r1, r2, r3] [vec_x p, vec_y p, vec_z p, 1]
      = Inr [r0 ! 0 * vec_x p + r0 ! 1 * vec_y p + r0 ! 2 * vec_z p + r0 ! 3 * 1,
             r1 ! 0 * vec_x p + r1 ! 1 * vec_y p + r1 ! 2 * vec_z p + r1 ! 3 * 1,
             r2 ! 0 * vec_x p + r2 ! 1 * vec_y p + r2 ! 2 * vec_z p + r2 ! 3 * 1,
             r3 ! 0 * vec_x p + r3 ! 1 * vec_y p + r3 ! 2 * vec_z p + r3 ! 3 * 1]"
    unfolding np_dot_def using lw by (simp add: row_dot4)
  have d2: "np_dot_f [k0, k1, k2] [a, b, c]
      = Inr [np_add (np_mul (k0 ! 0) a) (np_add (np_mul (k0 ! 1) b) (np_mul (k0 ! 2) c)),
             np_add (np_mul (k1 ! 0) a) (np_add (np_mul (k1 ! 1) b) (np_mul (k1 ! 2) c)),
             np_add (np_mul (k2 ! 0) a) (np_add (np_mul (k2 ! 1) b) (np_mul (k2 ! 2) c))]" for a b c
    unfolding np_dot_f_def using lk by (simp add: row_dot3)
  show ?thesis
    unfolding get_image_point_def w k d1
    by (simp add: py_index_def d2 spec_image_point_def spec_perspective_divide_def
        spec_apply_intrinsics_def spec_remap_def spec_camera_space_def w k)
qed

lemma project_edge_eq:
  assumes W: "is_matrix 4 4 (cam_inverse_matrix cam)"
    and i: "fst e < length verts" and j: "snd e < length verts"
  shows "project_edge
           (build_projection_matrix (image_size_x bp) (image_size_y bp) (fov bp) False)
           (build_projection_matrix (image_size_x bp) (image_size_y bp) (fov bp) True)
           (cam_inverse_matrix cam) (image_size_x bp) (image_size_y bp) cam verts e
         = (if spec_edge_survives bp cam verts e
            then bind (segment_pixels (spec_edge_segment bp cam verts e)) (\<lambda>s. Inr (Some s))
            else Inr None)"
proof -
  note g = get_image_point_eq [OF build_projection_matrix_is_matrix W]
  show ?thesis
    unfolding project_edge_def
    using i j
    by (simp add: py_index_def g Let_def spec_edge_survives_def spec_edge_segment_def
        spec_chosen_intrinsics_def spec_behind_camera_def segment_pixels_def not_less bind_assoc)
qed

lemma project_edges_eq:
  assumes "\<And>e. e \<in> set es \<Longrightarrow>
             step e = (if surv e then bind (pix e) (\<lambda>s. Inr (Some s)) else Inr None)"
  shows "project_edges step es acc
           = bind (sequence_err (map pix (filter surv es))) (\<lambda>segs. Inr (acc @ segs))"
  using assms
proof (induction es arbitrary: acc)
  case Nil
  then show ?case by simp
next
  case (Cons e es)
  have s: "step e = (if surv e then bind (pix e) (\<lambda>s. Inr (Some s)) else Inr None)"
    by (rule Cons.prems) simp
  have ih: "project_edges step es acc'
           = bind (sequence_err (map pix (filter surv es))) (\<lambda>segs. Inr (acc' @ segs))" for acc'
    by (rule Cons.IH) (simp add: Cons.prems)
  show ?case
    by (simp add: s ih bind_def split: sum.splits)
qed

lemma EDGES_bounds: "e \<in> set EDGES \<Longrightarrow> fst e < 8 \<and> snd e < 8"
  by (auto simp: EDGES_def)

lemma bbox_3d_for_actor_eq:
  assumes W: "is_matrix 4 4 (cam_inverse_matrix cam)" and V: "length (world_vertices a) = 8"
  shows "bbox_3d_for_actor inverse_transform a ego bp cam =
     bind (spec_projection bp cam (world_vertices a)) (\<lambda>projection.
     bind (py_index (semantic_tags a) 0) (\<lambda>tag.
     Inr \<lparr>r3_actor_id = actor_id a,
          r3_semantic_label = tag,
          r3_bbox_3d =
            \<lparr>center = inverse_transform
                        \<lparr>tf_location = vec_add (tf_location (actor_transform ego))
                                               (bb_location (actor_bounding_box ego)),
                         tf_rotation = tf_rotation (actor_transform ego)\<rparr>
                        (vec_add (tf_location (actor_transform a))
                                 (bb_location (actor_bounding_box a))),
             box_dimensions =
               \<lparr>dim_length = vec_x (bb_extent (actor_bounding_box a)) * 2,
                dim_width = vec_y (bb_extent (actor_bounding_box a)) * 2,
                dim_height = vec_z (bb_extent (actor_bounding_box a)) * 2\<rparr>,
             rotation_yaw = radians (yaw (tf_rotation (actor_transform a))
                                     - yaw (tf_rotation (actor_transform ego)))\<rparr>,
          r3_projection = projection\<rparr>))"
proof -
  have "project_edges
          (project_edge
            (build_projection_matrix (image_size_x bp) (image_size_y bp) (fov bp) False)
            (build_projection_matrix (image_size_x bp) (image_size_y bp) (fov bp) True)
            (cam_inverse_matrix cam) (image_size_x bp) (image_size_y bp) cam (world_vertices a))
          EDGES []
        = bind (spec_projection bp cam (world_vertices a)) (\<lambda>segs. Inr ([] @ segs))"
    unfolding spec_projection_def
    by (rule project_edges_eq, rule project_edge_eq [OF W])
       (use EDGES_bounds V in auto)
  then show ?thesis
    by (simp add: bbox_3d_for_actor_def Let_def bind_def split: sum.splits)
qed



text \<open>
  Claim C1. For a 3x3 intrinsics matrix \<open>K\<close> and a 4x4 world-to-camera matrix \<open>w2c\<close>, the
  projector returns the pair obtained by appending 1 to the point and multiplying by
  \<open>w2c\<close> (camera space \<open>(cx, cy, cz)\<close>), remapping the axes to \<open>(cy, - cz, cx)\<close>, multiplying
  the triple by \<open>K\<close> (giving \<open>(u, v, s)\<close>) and dividing \<open>u\<close> and \<open>v\<close> by \<open>s\<close> with numpy's
  float division.
\<close>

theorem get_image_point_algorithm:
  assumes "is_matrix 3 3 K" and "is_matrix 4 4 w2c"
  shows "get_image_point p K w2c
           = Inr (spec_perspective_divide
                    (spec_apply_intrinsics K (spec_remap (spec_camera_space w2c p))))"
  using get_image_point_eq [OF assms] by (simp add: spec_image_point_def)

theorem get_image_point_algorithm_witness:
  "is_matrix 3 3 [[Finite 400, Finite 0, Finite 400], [Finite 0, Finite 400, Finite 300],
                  [Finite 0, Finite 0, Finite 1]] \<and>
   is_matrix 4 4 [[1, 0, 0, 0], [0, 1, 0, 0], [0, 0, 1, 0], [0, 0, 0, 1 :: real]] \<and>
   get_image_point \<lparr>vec_x = 10, vec_y = 0, vec_z = 0\<rparr>
     [[Finite 400, Finite 0, Finite 400], [Finite 0, Finite 400, Finite 300],
      [Finite 0, Finite 0, Finite 1]]
     [[1, 0, 0, 0], [0, 1, 0, 0], [0, 0, 1, 0], [0, 0, 0, 1]]
   = Inr (Finite 400, Finite 300)"
proof -
  have k: "is_matrix 3 3 [[Finite 400, Finite 0, Finite 400], [Finite 0, Finite 400, Finite 300],
                  [Finite 0, Finite 0, Finite 1]]"
    by (simp add: is_matrix_def)
  have w: "is_matrix 4 4 [[1, 0, 0, 0], [0, 1, 0, 0], [0, 0, 1, 0], [0, 0, 0, 1 :: real]]"
    by (simp add: is_matrix_def)
  show ?thesis
    using k w get_image_point_algorithm [OF k w, of "\<lparr>vec_x = 10, vec_y = 0, vec_z = 0\<rparr>"]
    by (simp add: spec_perspective_divide_def spec_apply_intrinsics_def spec_remap_def
        spec_camera_space_def)
qed


section \<open>Evaluating the example scene\<close>

lemma example_K:
  "build_projection_matrix 800 600 90 False =
     [[Finite 400, Finite 0, Finite 400], [Finite 0, Finite 400, Finite 300],
      [Finite 0, Finite 0, Finite 1]]"
  "build_projection_matrix 800 600 90 True =
     [[Finite (- 400), Finite 0, Finite 400], [Finite 0, Finite (- 400), Finite 300],
      [Finite 0, Finite 0, Finite 1]]"
  by (simp_all add: build_projection_matrix_entries Let_def tan_45)

lemma example_image_point:
  "spec_image_point \<lparr>vec_x = cx, vec_y = cy, vec_z = cz\<rparr>
     [[Finite f, Finite 0, Finite 400], [Finite 0, Finite f, Finite 300],
      [Finite 0, Finite 0, Finite 1]]
     [[1, 0, 0, 0], [0, 1, 0, 0], [0, 0, 1, 0], [0, 0, 0, 1]]
   = (if cx = 0 then (NotFinite, NotFinite)
      else (Finite ((f * cy + 400 * cx) / cx), Finite ((- f * cz + 300 * cx) / cx)))"
  by (simp add: spec_image_point_def spec_perspective_divide_def spec_apply_intrinsics_def
      spec_remap_def spec_camera_space_def)

lemma straddling_projection:
  "spec_projection example_camera_bp example_camera
     (box_vertices \<lparr>vec_x = 1, vec_y = 0, vec_z = 0\<rparr> \<lparr>vec_x = 2, vec_y = 1, vec_z = 1\<rparr>)
   = Inr [(0, 700, 266, 433), (266, 433, 266, 166), (266, 166, 0, -100), (266, 166, 533, 166),
          (533, 166, 533, 433), (533, 433, 266, 433), (533, 433, 800, 700), (533, 166, 800, -100)]"
  by (simp add: spec_projection_def EDGES_def spec_edge_survives_def spec_edge_segment_def
      spec_chosen_intrinsics_def spec_behind_camera_def example_camera_bp_def example_camera_def
      box_vertices_def example_K example_image_point point_in_canvas_def vec_dot_def vec_sub_def
      segment_pixels_def Let_def)

lemma example_contract:
  "is_matrix 4 4 (cam_inverse_matrix example_camera)"
  "length (world_vertices (example_actor c e)) = 8"
  by (simp_all add: example_camera_def is_matrix_def example_actor_def box_vertices_def)

lemmas example_eval =
  spec_edge_survives_def spec_edge_segment_def
  spec_chosen_intrinsics_def spec_behind_camera_def example_camera_bp_def example_camera_def
  box_vertices_def example_K example_image_point point_in_canvas_def vec_dot_def vec_sub_def
  segment_pixels_def Let_def


section \<open>The reported box\<close>

lemma bbox_3d_for_actor_box:
  assumes "bbox_3d_for_actor inverse_transform a ego bp cam = Inr r"
  shows "r3_bbox_3d r =
            \<lparr>center = inverse_transform
                        \<lparr>tf_location = vec_add (tf_location (actor_transform ego))
                                               (bb_location (actor_bounding_box ego)),
                         tf_rotation = tf_rotation (actor_transform ego)\<rparr>
                        (vec_add (tf_location (actor_transform a))
                                 (bb_location (actor_bounding_box a))),
             box_dimensions =
               \<lparr>dim_length = vec_x (bb_extent (actor_bounding_box a)) * 2,
                dim_width = vec_y (bb_extent (actor_bounding_box a)) * 2,
                dim_height = vec_z (bb_extent (actor_bounding_box a)) * 2\<rparr>,
             rotation_yaw = radians (yaw (tf_rotation (actor_transform a))
                                     - yaw (tf_rotation (actor_transform ego)))\<rparr>"
  using assms unfolding bbox_3d_for_actor_def Let_def
  by (auto simp: bind_def split: sum.splits)

text \<open>
  Claim C6. Whenever the projector returns, the centre of the reported box is the inverse
  transform, in the frame at the ego's location plus the ego volume's centre offset with
  the ego's rotation, of the target's location plus its volume's centre offset; the
  dimensions are the target volume's extents doubled, hence non-negative for the
  non-negative extents (half-lengths) of a bounding volume; and the yaw is the target's
  yaw minus the ego's yaw, converted from degrees to radians.
\<close>

theorem bbox_3d_for_actor_box_description:
  assumes "bbox_3d_for_actor inverse_transform a ego bp cam = Inr r"
  shows "center (r3_bbox_3d r)
           = inverse_transform
               \<lparr>tf_location = vec_add (tf_location (actor_transform ego))
                                      (bb_location (actor_bounding_box ego)),
                tf_rotation = tf_rotation (actor_transform ego)\<rparr>
               (vec_add (tf_location (actor_transform a)) (bb_location (actor_bounding_box a))) \<and>
         dim_length (box_dimensions (r3_bbox_3d r)) = 2 * vec_x (bb_extent (actor_bounding_box a)) \<and>
         dim_width (box_dimensions (r3_bbox_3d r)) = 2 * vec_y (bb_extent (actor_bounding_box a)) \<and>
         dim_height (box_dimensions (r3_bbox_3d r)) = 2 * vec_z (bb_extent (actor_bounding_box a)) \<and>
         rotation_yaw (r3_bbox_3d r)
           = (yaw (tf_rotation (actor_transform a)) - yaw (tf_rotation (actor_transform ego)))
               * pi / 180 \<and>
         (0 \<le> vec_x (bb_extent (actor_bounding_box a)) \<and>
          0 \<le> vec_y (bb_extent (actor_bounding_box a)) \<and>
          0 \<le> vec_z (bb_extent (actor_bounding_box a)) \<longrightarrow>
            0 \<le> dim_length (box_dimensions (r3_bbox_3d r)) \<and>
            0 \<le> dim_width (box_dimensions (r3_bbox_3d r)) \<and>
            0 \<le> dim_height (box_dimensions (r3_bbox_3d r)))"
  by (simp add: bbox_3d_for_actor_box [OF assms] radians_def)

lemma vector3d_eta: "\<lparr>vec_x = vec_x c, vec_y = vec_y c, vec_z = vec_z c\<rparr> = (c :: vector3d)"
  by (cases c) simp

lemma example_bbox_3d:
  "bbox_3d_for_actor translation_inverse (example_actor c e)
      (example_actor \<lparr>vec_x = 0, vec_y = 0, vec_z = 0\<rparr> \<lparr>vec_x = 2, vec_y = 1, vec_z = 1\<rparr>)
      example_camera_bp example_camera
   = bind (spec_projection example_camera_bp example_camera (box_vertices c e)) (\<lambda>projection.
       Inr \<lparr>r3_actor_id = 42, r3_semantic_label = 14,
            r3_bbox_3d = \<lparr>center = c,
                           box_dimensions = \<lparr>dim_length = vec_x e * 2, dim_width = vec_y e * 2,
                                              dim_height = vec_z e * 2\<rparr>,
                           rotation_yaw = 0\<rparr>,
            r3_projection = projection\<rparr>)"
  by (subst bbox_3d_for_actor_eq [OF example_contract])
     (simp add: example_actor_def py_index_def translation_inverse_def vec_add_def vec_sub_def
        radians_def vector3d_eta)

theorem bbox_3d_for_actor_box_description_witness:
  "bbox_3d_for_actor translation_inverse
      (example_actor \<lparr>vec_x = 1, vec_y = 0, vec_z = 0\<rparr> \<lparr>vec_x = 2, vec_y = 1, vec_z = 1\<rparr>)
      (example_actor \<lparr>vec_x = 0, vec_y = 0, vec_z = 0\<rparr> \<lparr>vec_x = 2, vec_y = 1, vec_z = 1\<rparr>)
      example_camera_bp example_camera
   = Inr \<lparr>r3_actor_id = 42, r3_semantic_label = 14,
          r3_bbox_3d = \<lparr>center = \<lparr>vec_x = 1, vec_y = 0, vec_z = 0\<rparr>,
                         box_dimensions = \<lparr>dim_length = 4, dim_width = 2, dim_height = 2\<rparr>,
                         rotation_yaw = 0\<rparr>,
          r3_projection =
            [(0, 700, 266, 433), (266, 433, 266, 166), (266, 166, 0, -100), (266, 166, 533, 166),
             (533, 166, 533, 433), (533, 433, 266, 433), (533, 433, 800, 700), (533, 166, 800, -100)]\<rparr> \<and>
   translation_inverse
     \<lparr>tf_location = vec_add \<lparr>vec_x = 0, vec_y = 0, vec_z = 0\<rparr> \<lparr>vec_x = 0, vec_y = 0, vec_z = 0\<rparr>,
      tf_rotation = \<lparr>pitch = 0, yaw = 0, roll = 0\<rparr>\<rparr>
     (vec_add \<lparr>vec_x = 1, vec_y = 0, vec_z = 0\<rparr> \<lparr>vec_x = 0, vec_y = 0, vec_z = 0\<rparr>)
   = \<lparr>vec_x = 1, vec_y = 0, vec_z = 0\<rparr> \<and>
   (4 :: real) = 2 * 2 \<and> (2 :: real) = 2 * 1 \<and> (0 :: real) = (0 - 0) * pi / 180 \<and>
   (0 :: real) \<le> 4 \<and> (0 :: real) \<le> 2"
proof -
  have r: "bbox_3d_for_actor translation_inverse
      (example_actor \<lparr>vec_x = 1, vec_y = 0, vec_z = 0\<rparr> \<lparr>vec_x = 2, vec_y = 1, vec_z = 1\<rparr>)
      (example_actor \<lparr>vec_x = 0, vec_y = 0, vec_z = 0\<rparr> \<lparr>vec_x = 2, vec_y = 1, vec_z = 1\<rparr>)
      example_camera_bp example_camera
   = Inr \<lparr>r3_actor_id = 42, r3_semantic_label = 14,
          r3_bbox_3d = \<lparr>center = \<lparr>vec_x = 1, vec_y = 0, vec_z = 0\<rparr>,
                         box_dimensions = \<lparr>dim_length = 4, dim_width = 2, dim_height = 2\<rparr>,
                         rotation_yaw = 0\<rparr>,
          r3_projection =
            [(0, 700, 266, 433), (266, 433, 266, 166), (266, 166, 0, -100), (266, 166, 533, 166),
             (533, 166, 533, 433), (533, 433, 266, 433), (533, 433, 800, 700), (533, 166, 800, -100)]\<rparr>"
    by (simp add: example_bbox_3d straddling_projection)
  from bbox_3d_for_actor_box_description [OF r] r
  show ?thesis by (simp add: example_actor_def)
qed

section \<open>Actors outside the view\<close>

text \<open>
  Claim C5, as stated, fails: an edge is dropped by the canvas test of its normal
  projections, not by the forward-dot-product test. A box entirely behind the camera
  whose normal (mirror-image) projections fall inside the canvas keeps all its 12 edges:
  here the box of half-size 1 centred 10 behind the example camera.
\<close>

theorem bbox_3d_for_actor_behind_counterexample:
  "list_all (spec_behind_camera example_camera)
     (world_vertices (example_actor \<lparr>vec_x = - 10, vec_y = 0, vec_z = 0\<rparr>
                                    \<lparr>vec_x = 1, vec_y = 1, vec_z = 1\<rparr>)) \<and>
   bbox_3d_for_actor translation_inverse
      (example_actor \<lparr>vec_x = - 10, vec_y = 0, vec_z = 0\<rparr> \<lparr>vec_x = 1, vec_y = 1, vec_z = 1\<rparr>)
      (example_actor \<lparr>vec_x = 0, vec_y = 0, vec_z = 0\<rparr> \<lparr>vec_x = 2, vec_y = 1, vec_z = 1\<rparr>)
      example_camera_bp example_camera
   = Inr \<lparr>r3_actor_id = 42, r3_semantic_label = 14,
          r3_bbox_3d = \<lparr>center = \<lparr>vec_x = - 10, vec_y = 0, vec_z = 0\<rparr>,
                         box_dimensions = \<lparr>dim_length = 2, dim_width = 2, dim_height = 2\<rparr>,
                         rotation_yaw = 0\<rparr>,
          r3_projection =
            [(363, 336, 363, 263), (363, 263, 436, 263), (436, 263, 436, 336),
             (436, 336, 363, 336), (363, 336, 355, 344), (355, 344, 355, 255),
             (355, 255, 363, 263), (355, 255, 444, 255), (444, 255, 444, 344),
             (444, 344, 355, 344), (444, 344, 436, 336), (444, 255, 436, 263)]\<rparr>"
proof -
  have p: "spec_projection example_camera_bp example_camera
     (box_vertices \<lparr>vec_x = - 10, vec_y = 0, vec_z = 0\<rparr> \<lparr>vec_x = 1, vec_y = 1, vec_z = 1\<rparr>)
   = Inr [(363, 336, 363, 263), (363, 263, 436, 263), (436, 263, 436, 336),
             (436, 336, 363, 336), (363, 336, 355, 344), (355, 344, 355, 255),
             (355, 255, 363, 263), (355, 255, 444, 255), (444, 255, 444, 344),
             (444, 344, 355, 344), (444, 344, 436, 336), (444, 255, 436, 263)]"
    by (simp add: spec_projection_def EDGES_def example_eval)
  have b: "list_all (spec_behind_camera example_camera)
     (world_vertices (example_actor \<lparr>vec_x = - 10, vec_y = 0, vec_z = 0\<rparr>
                                    \<lparr>vec_x = 1, vec_y = 1, vec_z = 1\<rparr>))"
    by (simp add: example_actor_def example_eval)
  show ?thesis
    using b by (simp add: example_bbox_3d p)
qed

lemma spec_projection_empty:
  assumes "\<And>e. e \<in> set EDGES \<Longrightarrow> \<not> spec_edge_survives bp cam verts e"
  shows "spec_projection bp cam verts = Inr []"
proof -
  have "filter (spec_edge_survives bp cam verts) EDGES = []"
    using assms by (simp add: filter_empty_conv)
  then show ?thesis by (simp add: spec_projection_def)
qed

text \<open>
  Claim C5, amended. For a target actor with at least one semantic tag whose 8 corner
  vertices all project outside the canvas with the normal intrinsics (behind the camera
  or not), the projector returns an empty edge-segment list together with the centre,
  the dimensions and the relative yaw.
\<close>

theorem bbox_3d_for_actor_off_canvas:
  assumes W: "is_matrix 4 4 (cam_inverse_matrix cam)" and V: "length (world_vertices a) = 8"
    and tags: "semantic_tags a \<noteq> []"
    and off: "list_all (\<lambda>v. \<exists>p. get_image_point v
                  (build_projection_matrix (image_size_x bp) (image_size_y bp) (fov bp) False)
                  (cam_inverse_matrix cam) = Inr p
                \<and> \<not> point_in_canvas p (image_size_y bp) (image_size_x bp)) (world_vertices a)"
  shows "bbox_3d_for_actor inverse_transform a ego bp cam =
     Inr \<lparr>r3_actor_id = actor_id a,
          r3_semantic_label = hd (semantic_tags a),
          r3_bbox_3d =
            \<lparr>center = inverse_transform
                        \<lparr>tf_location = vec_add (tf_location (actor_transform ego))
                                               (bb_location (actor_bounding_box ego)),
                         tf_rotation = tf_rotation (actor_transform ego)\<rparr>
                        (vec_add (tf_location (actor_transform a))
                                 (bb_location (actor_bounding_box a))),
             box_dimensions =
               \<lparr>dim_length = vec_x (bb_extent (actor_bounding_box a)) * 2,
                dim_width = vec_y (bb_extent (actor_bounding_box a)) * 2,
                dim_height = vec_z (bb_extent (actor_bounding_box a)) * 2\<rparr>,
             rotation_yaw = radians (yaw (tf_rotation (actor_transform a))
                                     - yaw (tf_rotation (actor_transform ego)))\<rparr>,
          r3_projection = []\<rparr>"
proof -
  note g = get_image_point_eq [OF build_projection_matrix_is_matrix W]
  have o: "\<not> point_in_canvas (spec_image_point (world_vertices a ! i)
                (build_projection_matrix (image_size_x bp) (image_size_y bp) (fov bp) False)
                (cam_inverse_matrix cam)) (image_size_y bp) (image_size_x bp)"
    if "i < 8" for i
  proof -
    from that V have "world_vertices a ! i \<in> set (world_vertices a)" by simp
    with off show ?thesis by (auto simp: list_all_iff g)
  qed
  have "\<not> spec_edge_survives bp cam (world_vertices a) e" if "e \<in> set EDGES" for e
    using EDGES_bounds [OF that] o by (simp add: spec_edge_survives_def Let_def)
  then have "spec_projection bp cam (world_vertices a) = Inr []"
    by (rule spec_projection_empty)
  moreover from tags have "py_index (semantic_tags a) 0 = Inr (hd (semantic_tags a))"
    by (cases "semantic_tags a") (simp_all add: py_index_def)
  ultimately show ?thesis
    by (simp add: bbox_3d_for_actor_eq [OF W V])
qed

theorem bbox_3d_for_actor_off_canvas_witness:
  "is_matrix 4 4 (cam_inverse_matrix example_camera) \<and>
   length (world_vertices (example_actor \<lparr>vec_x = - 10, vec_y = 50, vec_z = 0\<rparr>
                                         \<lparr>vec_x = 1, vec_y = 1, vec_z = 1\<rparr>)) = 8 \<and>
   list_all (spec_behind_camera example_camera)
     (world_vertices (example_actor \<lparr>vec_x = - 10, vec_y = 50, vec_z = 0\<rparr>
                                    \<lparr>vec_x = 1, vec_y = 1, vec_z = 1\<rparr>)) \<and>
   bbox_3d_for_actor translation_inverse
      (example_actor \<lparr>vec_x = - 10, vec_y = 50, vec_z = 0\<rparr> \<lparr>vec_x = 1, vec_y = 1, vec_z = 1\<rparr>)
      (example_actor \<lparr>vec_x = 0, vec_y = 0, vec_z = 0\<rparr> \<lparr>vec_x = 2, vec_y = 1, vec_z = 1\<rparr>)
      example_camera_bp example_camera
   = Inr \<lparr>r3_actor_id = 42, r3_semantic_label = 14,
          r3_bbox_3d = \<lparr>center = \<lparr>vec_x = - 10, vec_y = 50, vec_z = 0\<rparr>,
                         box_dimensions = \<lparr>dim_length = 2, dim_width = 2, dim_height = 2\<rparr>,
                         rotation_yaw = 0\<rparr>,
          r3_projection = []\<rparr>"
proof -
  let ?a = "example_actor \<lparr>vec_x = - 10, vec_y = 50, vec_z = 0\<rparr> \<lparr>vec_x = 1, vec_y = 1, vec_z = 1\<rparr>"
  note W = example_contract(1)
  note V = example_contract(2) [of "\<lparr>vec_x = - 10, vec_y = 50, vec_z = 0\<rparr>" "\<lparr>vec_x = 1, vec_y = 1, vec_z = 1\<rparr>"]
  note g = get_image_point_eq [OF build_projection_matrix_is_matrix W]
  have tags: "semantic_tags ?a \<noteq> []" by (simp add: example_actor_def)
  have off: "list_all (\<lambda>v. \<exists>p. get_image_point v
                  (build_projection_matrix (image_size_x example_camera_bp)
                     (image_size_y example_camera_bp) (fov example_camera_bp) False)
                  (cam_inverse_matrix example_camera) = Inr p
                \<and> \<not> point_in_canvas p (image_size_y example_camera_bp)
                      (image_size_x example_camera_bp)) (world_vertices ?a)"
    unfolding g by (simp add: example_actor_def example_eval)
  have b: "list_all (spec_behind_camera example_camera) (world_vertices ?a)"
    by (simp add: example_actor_def example_eval)
  from bbox_3d_for_actor_off_canvas [OF W V tags off,
      of translation_inverse "example_actor \<lparr>vec_x = 0, vec_y = 0, vec_z = 0\<rparr> \<lparr>vec_x = 2, vec_y = 1, vec_z = 1\<rparr>"]
  have "bbox_3d_for_actor translation_inverse ?a
      (example_actor \<lparr>vec_x = 0, vec_y = 0, vec_z = 0\<rparr> \<lparr>vec_x = 2, vec_y = 1, vec_z = 1\<rparr>)
      example_camera_bp example_camera
   = Inr \<lparr>r3_actor_id = 42, r3_semantic_label = 14,
          r3_bbox_3d = \<lparr>center = \<lparr>vec_x = - 10, vec_y = 50, vec_z = 0\<rparr>,
                         box_dimensions = \<lparr>dim_length = 2, dim_width = 2, dim_height = 2\<rparr>,
                         rotation_yaw = 0\<rparr>,
          r3_projection = []\<rparr>"
    by (simp add: example_actor_def translation_inverse_def vec_add_def vec_sub_def radians_def)
  with W V b show ?thesis by (intro conjI)
qed

section \<open>Malformed intrinsics\<close>





section \<open>The 2D extractor\<close>

lemma np_where_cells: "np_where msk = (map fst (mask_cells msk), map snd (mask_cells msk))"
  by (simp add: np_where_def mask_cells_def Let_def)

lemma set_row_cells:
  "set (map (\<lambda>(x, m). (y :: nat, x)) (filter snd (enumerate 0 row)))
     = {(y', x). y' = y \<and> x < length row \<and> row ! x}"
proof (rule set_eqI)
  fix p :: "nat \<times> nat"
  obtain y' x where p: "p = (y', x)" by (cases p)
  have "p \<in> set (map (\<lambda>(x, m). (y, x)) (filter snd (enumerate 0 row)))
          \<longleftrightarrow> y' = y \<and> (\<exists>m. (x, m) \<in> set (enumerate 0 row) \<and> m)"
    unfolding p by force
  also have "\<dots> \<longleftrightarrow> y' = y \<and> x < length row \<and> row ! x"
    by (auto simp: in_set_enumerate_eq)
  finally show "p \<in> set (map (\<lambda>(x, m). (y, x)) (filter snd (enumerate 0 row)))
          \<longleftrightarrow> p \<in> {(y', x). y' = y \<and> x < length row \<and> row ! x}"
    unfolding p by simp
qed

lemma set_mask_cells:
  "set (mask_cells msk) = {(y, x). y < length msk \<and> x < length (msk ! y) \<and> msk ! y ! x}"
proof (rule set_eqI)
  fix p :: "nat \<times> nat"
  obtain y x where p: "p = (y, x)" by (cases p)
  have "p \<in> set (mask_cells msk)
          \<longleftrightarrow> (\<exists>y' row. (y', row) \<in> set (enumerate 0 msk) \<and>
                 p \<in> set (map (\<lambda>(x, m). (y', x)) (filter snd (enumerate 0 row))))"
    unfolding mask_cells_def by (simp only: set_concat set_map) force
  also have "\<dots> \<longleftrightarrow> (\<exists>y' row. y' < length msk \<and> row = msk ! y' \<and>
                 y = y' \<and> x < length row \<and> row ! x)"
    unfolding set_row_cells p by (auto simp: in_set_enumerate_eq)
  also have "\<dots> \<longleftrightarrow> y < length msk \<and> x < length (msk ! y) \<and> msk ! y ! x"
    by auto
  finally show "p \<in> set (mask_cells msk)
          \<longleftrightarrow> p \<in> {(y, x). y < length msk \<and> x < length (msk ! y) \<and> msk ! y ! x}"
    unfolding p by simp
qed

lemma np_any_cells: "np_any msk \<longleftrightarrow> mask_cells msk \<noteq> []"
proof -
  have "np_any msk \<longleftrightarrow> (\<exists>row \<in> set msk. \<exists>m \<in> set row. m)"
    by (simp add: np_any_def list_ex_iff)
  also have "\<dots> \<longleftrightarrow> (\<exists>y < length msk. \<exists>x < length (msk ! y). msk ! y ! x)"
    by (metis in_set_conv_nth)
  also have "\<dots> \<longleftrightarrow> set (mask_cells msk) \<noteq> {}"
    unfolding set_mask_cells by auto
  finally show ?thesis by simp
qed

lemma np_min_Min: "xs \<noteq> [] \<Longrightarrow> np_min xs = Inr (Min (set xs))"
proof (cases xs)
  case (Cons a list)
  then show ?thesis using Min.set_eq_fold [of a list] by simp
qed simp

lemma np_max_Max: "xs \<noteq> [] \<Longrightarrow> np_max xs = Inr (Max (set xs))"
proof (cases xs)
  case (Cons a list)
  then show ?thesis using Max.set_eq_fold [of a list] by simp
qed simp

lemma matching_cells_mask:
  "matching_cells a actor_ids = set (mask_cells (map (map (\<lambda>v. uint v = actor_id a)) actor_ids))"
  by (auto simp: matching_cells_def set_mask_cells)

lemma bbox_2d_for_actor_eq:
  "bbox_2d_for_actor a actor_ids semantic_labels =
     (if matching_cells a actor_ids = {} then Inr None
      else if semantic_tags a = [] then Inl IndexError
      else Inr (Some \<lparr>r2_actor_id = actor_id a,
                      r2_semantic_label = hd (semantic_tags a),
                      r2_bbox_2d = (Min (snd ` matching_cells a actor_ids),
                                    Min (fst ` matching_cells a actor_ids),
                                    Max (snd ` matching_cells a actor_ids),
                                    Max (fst ` matching_cells a actor_ids))\<rparr>))"
proof -
  let ?msk = "map (map (\<lambda>v. uint v = actor_id a)) actor_ids"
  let ?cells = "mask_cells ?msk"
  have m: "matching_cells a actor_ids = set ?cells" by (rule matching_cells_mask)
  show ?thesis
  proof (cases "?cells = []")
    case True
    then show ?thesis
      by (simp add: bbox_2d_for_actor_def Let_def np_any_cells m)
  next
    case False
    then have x: "map snd ?cells \<noteq> []" and y: "map fst ?cells \<noteq> []" by simp_all
    have t: "py_index (semantic_tags a) 0
               = (if semantic_tags a = [] then Inl IndexError else Inr (hd (semantic_tags a)))"
      by (cases "semantic_tags a") (simp_all add: py_index_def)
    from False show ?thesis
      by (simp add: bbox_2d_for_actor_def Let_def np_any_cells np_where_cells m
          np_min_Min [OF x] np_max_Max [OF x] np_min_Min [OF y] np_max_Max [OF y] t)
  qed
qed

lemma finite_matching_cells: "finite (matching_cells a actor_ids)"
  by (simp add: matching_cells_mask)

text \<open>
  Claim C4, as stated, fails in its last part: the reported semantic label is the actor's
  own first semantic tag, not a label read from the grid. Here the only matching pixel
  carries the label 12 and the reported label is the actor's tag 14.
\<close>

theorem bbox_2d_for_actor_label_counterexample:
  "bbox_2d_for_actor
     (example_actor \<lparr>vec_x = 10, vec_y = 0, vec_z = 0\<rparr> \<lparr>vec_x = 1, vec_y = 1, vec_z = 1\<rparr>)
     [[42]] [[12]]
   = Inr (Some \<lparr>r2_actor_id = 42, r2_semantic_label = 14, r2_bbox_2d = (0, 0, 0, 0)\<rparr>) \<and>
   matching_cells
     (example_actor \<lparr>vec_x = 10, vec_y = 0, vec_z = 0\<rparr> \<lparr>vec_x = 1, vec_y = 1, vec_z = 1\<rparr>)
     [[42]] = {(0, 0)} \<and>
   uint (([[12]] :: u8 list list) ! 0 ! 0) = 12"
proof -
  have m: "matching_cells
     (example_actor \<lparr>vec_x = 10, vec_y = 0, vec_z = 0\<rparr> \<lparr>vec_x = 1, vec_y = 1, vec_z = 1\<rparr>)
     [[42]] = {(0, 0)}"
    by (auto simp: matching_cells_def example_actor_def)
  show ?thesis
    by (simp add: bbox_2d_for_actor_eq m) (simp add: example_actor_def)
qed

text \<open>
  Claim C4, amended. The extractor returns \<open>None\<close> if and only if no cell of the grid equals
  the actor id. Otherwise it returns the tight box with inclusive bounds (\<open>xmin\<close>/\<open>xmax\<close> the
  least/greatest matching column, \<open>ymin\<close>/\<open>ymax\<close> the least/greatest matching row) together
  with the actor id and the actor's first semantic tag; with a matching cell and an empty
  tag list the lookup \<^verbatim>\<open>semantic_tags[0]\<close> raises. The grid of semantic labels is not read.
\<close>

theorem bbox_2d_for_actor_box:
  "bbox_2d_for_actor a actor_ids semantic_labels =
     (if matching_cells a actor_ids = {} then Inr None
      else if semantic_tags a = [] then Inl IndexError
      else Inr (Some \<lparr>r2_actor_id = actor_id a,
                      r2_semantic_label = hd (semantic_tags a),
                      r2_bbox_2d = (Min (snd ` matching_cells a actor_ids),
                                    Min (fst ` matching_cells a actor_ids),
                                    Max (snd ` matching_cells a actor_ids),
                                    Max (fst ` matching_cells a actor_ids))\<rparr>)) \<and>
   (bbox_2d_for_actor a actor_ids semantic_labels = Inr None
      \<longleftrightarrow> matching_cells a actor_ids = {}) \<and>
   bbox_2d_for_actor a actor_ids semantic_labels = bbox_2d_for_actor a actor_ids other_labels"
  by (simp add: bbox_2d_for_actor_eq)


lemma example_extract:
  "bbox_2d_for_actor
     (example_actor \<lparr>vec_x = 10, vec_y = 0, vec_z = 0\<rparr> \<lparr>vec_x = 1, vec_y = 1, vec_z = 1\<rparr>)
     example_ids []
   = Inr (Some \<lparr>r2_actor_id = 42, r2_semantic_label = 14, r2_bbox_2d = (20, 10, 22, 12)\<rparr>)"
  by code_simp

theorem bbox_2d_for_actor_box_witness:
  "bbox_2d_for_actor
     (example_actor \<lparr>vec_x = 10, vec_y = 0, vec_z = 0\<rparr> \<lparr>vec_x = 1, vec_y = 1, vec_z = 1\<rparr>)
     example_ids []
   = Inr (Some \<lparr>r2_actor_id = 42, r2_semantic_label = 14, r2_bbox_2d = (20, 10, 22, 12)\<rparr>) \<and>
   Min (snd ` matching_cells
     (example_actor \<lparr>vec_x = 10, vec_y = 0, vec_z = 0\<rparr> \<lparr>vec_x = 1, vec_y = 1, vec_z = 1\<rparr>)
     example_ids) = 20 \<and>
   Max (fst ` matching_cells
     (example_actor \<lparr>vec_x = 10, vec_y = 0, vec_z = 0\<rparr> \<lparr>vec_x = 1, vec_y = 1, vec_z = 1\<rparr>)
     example_ids) = 12"
  using bbox_2d_for_actor_box [of
     "example_actor \<lparr>vec_x = 10, vec_y = 0, vec_z = 0\<rparr> \<lparr>vec_x = 1, vec_y = 1, vec_z = 1\<rparr>"
     example_ids "[]" "[]", THEN conjunct1]
  unfolding example_extract
  by (simp split: if_splits)

text \<open>
  Claim C10. Whenever the extractor returns a box for a grid of \<open>H\<close> rows of \<open>W\<close> columns,
  \<open>0 \<le> xmin \<le> xmax \<le> W - 1\<close> and \<open>0 \<le> ymin \<le> ymax \<le> H - 1\<close>.
\<close>

theorem bbox_2d_for_actor_in_bounds:
  assumes r: "bbox_2d_for_actor a actor_ids semantic_labels = Inr (Some r)"
    and H: "length actor_ids = H" and W: "list_all (\<lambda>row. length row = W) actor_ids"
  shows "(case r2_bbox_2d r of (xmin, ymin, xmax, ymax) \<Rightarrow>
           0 \<le> int xmin \<and> int xmin \<le> int xmax \<and> int xmax \<le> int W - 1 \<and>
           0 \<le> int ymin \<and> int ymin \<le> int ymax \<and> int ymax \<le> int H - 1)"
proof -
  let ?M = "matching_cells a actor_ids"
  from r have ne: "?M \<noteq> {}"
    by (auto simp: bbox_2d_for_actor_eq split: if_splits)
  with r have b: "r2_bbox_2d r = (Min (snd ` ?M), Min (fst ` ?M), Max (snd ` ?M), Max (fst ` ?M))"
    by (auto simp: bbox_2d_for_actor_eq split: if_splits)
  have fin: "finite (fst ` ?M)" "finite (snd ` ?M)"
    by (simp_all add: finite_matching_cells)
  have nes: "fst ` ?M \<noteq> {}" "snd ` ?M \<noteq> {}" using ne by simp_all
  have x: "Min (snd ` ?M) \<le> Max (snd ` ?M)"
    using fin nes by (intro Min_le Max_in)
  have y: "Min (fst ` ?M) \<le> Max (fst ` ?M)"
    using fin nes by (intro Min_le Max_in)
  have "Max (snd ` ?M) \<in> snd ` ?M" using fin nes by (intro Max_in)
  then obtain y0 where "(y0, Max (snd ` ?M)) \<in> ?M" by force
  then have "y0 < length actor_ids" "Max (snd ` ?M) < length (actor_ids ! y0)"
    by (simp_all add: matching_cells_def)
  with W have xw: "Max (snd ` ?M) < W" by (simp add: list_all_length)
  have "Max (fst ` ?M) \<in> fst ` ?M" using fin nes by (intro Max_in)
  then obtain x0 where "(Max (fst ` ?M), x0) \<in> ?M" by force
  then have yh: "Max (fst ` ?M) < H" using H by (simp add: matching_cells_def)
  from x y xw yh show ?thesis unfolding b by simp
qed

theorem bbox_2d_for_actor_in_bounds_witness:
  "bbox_2d_for_actor
     (example_actor \<lparr>vec_x = 10, vec_y = 0, vec_z = 0\<rparr> \<lparr>vec_x = 1, vec_y = 1, vec_z = 1\<rparr>)
     example_ids []
   = Inr (Some \<lparr>r2_actor_id = 42, r2_semantic_label = 14, r2_bbox_2d = (20, 10, 22, 12)\<rparr>) \<and>
   length example_ids = 14 \<and> list_all (\<lambda>row. length row = 24) example_ids \<and>
   (0::int) \<le> 20 \<and> (20::int) \<le> 22 \<and> (22::int) \<le> 24 - 1 \<and>
   (0::int) \<le> 10 \<and> (10::int) \<le> 12 \<and> (12::int) \<le> 14 - 1"
proof -
  have H: "length example_ids = 14" by (simp add: example_ids_def)
  have W: "list_all (\<lambda>row. length row = 24) example_ids"
    by (simp add: example_ids_def list_all_iff)
  from bbox_2d_for_actor_in_bounds [OF example_extract H W] example_extract H W
  show ?thesis by simp
qed

end
